theory Spec2Isabelle
  imports Main
begin

section \<open>The QR scanner component (QrScannerComponent)\<close>

text \<open>
  The component is an Angular class whose methods mutate its fields and call into the
  browser (media streams, the video element) and into the decoding library
  (\<^verbatim>\<open>BrowserMultiFormatReader\<close>). The embedding is a record of the fields together
  with a log of the calls the component makes on those collaborators, and one HOL
  function per method, taking the state and returning the updated one. What a
  collaborator answers (a rejected promise, the capabilities of a track) is a parameter
  of the function.

  \<^verbatim>\<open>cdr.markForCheck()\<close> only asks the framework to render again; it is not modelled.
\<close>

subsection \<open>Strings\<close>

text \<open>
  A JavaScript string is a sequence of UTF-16 code units, written here as natural
  numbers. \<open>js\<close> turns an ASCII literal into such a sequence.
\<close>

type_synonym jsstring = "nat list"

definition js :: "string \<Rightarrow> jsstring" where
  "js s = map of_char s"

text \<open>
  \<^verbatim>\<open>String.prototype.trim\<close> removes the code units that ECMAScript calls WhiteSpace or
  LineTerminator from both ends.
\<close>

definition isWhiteSpace :: "nat \<Rightarrow> bool" where
  "isWhiteSpace c =
     (c = 9 \<or> c = 10 \<or> c = 11 \<or> c = 12 \<or> c = 13 \<or> c = 32 \<or> c = 160 \<or> c = 5760
      \<or> (8192 \<le> c \<and> c \<le> 8202) \<or> c = 8232 \<or> c = 8233 \<or> c = 8239 \<or> c = 8287
      \<or> c = 12288 \<or> c = 65279)"

definition trim :: "jsstring \<Rightarrow> jsstring" where
  "trim s = rev (dropWhile isWhiteSpace (rev (dropWhile isWhiteSpace s)))"

subsection \<open>The messages of the component\<close>

text \<open>The Arabic literals of the source, as their code units.\<close>

definition msgDevices :: jsstring where
  "msgDevices = [1578, 1593, 1584, 1617, 1585, 32, 1575, 1604, 1608, 1589, 1608, 1604, 32,
     1604, 1571, 1580, 1607, 1586, 1577, 32, 1575, 1604, 1603, 1575, 1605, 1610, 1585, 1575,
     46]"

definition msgStartFailed :: jsstring where
  "msgStartFailed = [1601, 1588, 1604, 32, 1576, 1583, 1569, 32, 1575, 1604, 1605, 1587,
     1581, 46]"

definition msgNotAllowed :: jsstring where
  "msgNotAllowed = [1578, 1605, 32, 1585, 1601, 1590, 32, 1573, 1584, 1606, 32, 1575, 1604,
     1603, 1575, 1605, 1610, 1585, 1575, 46]"

definition msgNotFound :: jsstring where
  "msgNotFound = [1604, 1575, 32, 1578, 1608, 1580, 1583, 32, 1603, 1575, 1605, 1610, 1585,
     1575, 32, 1605, 1578, 1575, 1581, 1577, 46]"

definition msgNotReadable :: jsstring where
  "msgNotReadable = [1578, 1593, 1584, 1617, 1585, 32, 1601, 1578, 1581, 32, 1575, 1604,
     1603, 1575, 1605, 1610, 1585, 1575, 32, 40, 1602, 1583, 32, 1578, 1603, 1608, 1606, 32,
     1605, 1587, 1578, 1582, 1583, 1605, 1577, 41, 46]"

definition msgOverconstrained :: jsstring where
  "msgOverconstrained = [1602, 1610, 1608, 1583, 32, 1575, 1604, 1603, 1575, 1605, 1610,
     1585, 1575, 32, 1594, 1610, 1585, 32, 1605, 1583, 1593, 1608, 1605, 1577, 32, 1593,
     1604, 1609, 32, 1607, 1584, 1575, 32, 1575, 1604, 1580, 1607, 1575, 1586, 46]"

definition msgSecurity :: jsstring where
  "msgSecurity = [1575, 1604, 1583, 1582, 1608, 1604, 32, 1604, 1604, 1603, 1575, 1605,
     1610, 1585, 1575, 32, 1605, 1585, 1601, 1608, 1590, 32, 1604, 1571, 1587, 1576, 1575,
     1576, 32, 1571, 1605, 1606, 1610, 1577, 32, 40, 1578, 1581, 1602, 1617, 1602, 32, 1605,
     1606, 32, 72, 84, 84, 80, 83, 41, 46]"

subsection \<open>Values exchanged with the browser and the decoder\<close>

text \<open>
  An error value, as far as \<^verbatim>\<open>mapError\<close> looks at it: its \<^verbatim>\<open>name\<close> property and the
  name of its constructor, each possibly missing. A missing error (\<^verbatim>\<open>undefined\<close>) is
  \<open>None\<close> at the places that take a \<open>jsError option\<close>.
\<close>

record jsError =
  errName :: "jsstring option"
  ctorName :: "jsstring option"

datatype deviceKind = VideoInput | AudioInput | AudioOutput

record mediaDeviceInfo =
  deviceId :: jsstring
  kind :: deviceKind
  label :: jsstring

text \<open>A promise of the browser or the library either rejects or resolves with a value.\<close>

datatype 'a promised = Rejects | Resolves 'a

text \<open>
  What \<^verbatim>\<open>getCapabilities\<close> of a track does: the method may be missing, it may throw, or
  it returns a value that is falsy, an object without a \<^verbatim>\<open>torch\<close> key, or an object whose
  \<^verbatim>\<open>torch\<close> entry is truthy or falsy.
\<close>

datatype capabilities =
    GetCapabilitiesMissing
  | GetCapabilitiesThrows
  | CapsFalsy
  | CapsWithoutTorch
  | CapsTorch bool

text \<open>
  The first video track of a stream, as far as the component uses it: what its
  \<^verbatim>\<open>getCapabilities\<close> does and whether its \<^verbatim>\<open>applyConstraints\<close> resolves. A stream
  without video tracks has no such track (\<open>None\<close>).
\<close>

record videoTrack =
  getCapabilities :: capabilities
  applyConstraints :: "unit promised"

datatype videoConstraints =
    ExactDevice jsstring
  | FacingEnvironment

subsection \<open>The state\<close>

text \<open>
  Streams and controls handles are identified by numbers. The first block of fields are
  the fields of the class and \<^verbatim>\<open>videoRef.nativeElement.srcObject\<close>; the second block
  records what the component has asked of its collaborators, in order:
  the controls handles on which \<^verbatim>\<open>stop()\<close> was called, the streams whose tracks were
  stopped, the calls of \<^verbatim>\<open>decodeFromConstraints\<close> that have not settled yet, the
  number of refreshes scheduled with \<^verbatim>\<open>setTimeout\<close>, the number of \<^verbatim>\<open>console.error\<close>
  calls; and what the library has handed out: the streams it opened and the controls
  handles it created.
\<close>

record scanner =
  controls :: "nat option"
  stream :: "nat option"
  srcObject :: "nat option"
  devices :: "mediaDeviceInfo list"
  selectedDeviceId :: "jsstring option"
  scanning :: bool
  resultText :: jsstring
  errorMsg :: "jsstring option"
  hasTorch :: bool
  torchOn :: bool
  stoppedControls :: "nat list"
  releasedStreams :: "nat list"
  pendingStarts :: "videoConstraints list"
  scheduledRefreshes :: nat
  consoleErrors :: nat
  openedStreams :: "nat list"
  issuedControls :: "nat list"

definition initial :: scanner where
  "initial = \<lparr> controls = None, stream = None, srcObject = None, devices = [],
     selectedDeviceId = None, scanning = False, resultText = [], errorMsg = None,
     hasTorch = False, torchOn = False, stoppedControls = [], releasedStreams = [],
     pendingStarts = [], scheduledRefreshes = 0, consoleErrors = 0, openedStreams = [],
     issuedControls = [] \<rparr>"

text \<open>\<open>a || b\<close> on optional handles, and \<open>v || undefined\<close> on a string.\<close>

definition orElse :: "'a option \<Rightarrow> 'a option \<Rightarrow> 'a option" where
  "orElse a b = (case a of Some x \<Rightarrow> Some x | None \<Rightarrow> b)"

definition nonEmpty :: "jsstring \<Rightarrow> jsstring option" where
  "nonEmpty v = (if v = [] then None else Some v)"

definition optList :: "'a option \<Rightarrow> 'a list" where
  "optList a = (case a of Some x \<Rightarrow> [x] | None \<Rightarrow> [])"

subsection \<open>Utilities of the class\<close>

text \<open>
  \<^verbatim>\<open>stopTracks\<close>: stops the tracks of the video element's stream, or else of the stored
  stream, and clears both references.
\<close>

definition stopTracks :: "scanner \<Rightarrow> scanner" where
  "stopTracks s =
     s\<lparr> releasedStreams := releasedStreams s @ optList (orElse (srcObject s) (stream s)),
        srcObject := None,
        stream := None \<rparr>"

text \<open>
  \<^verbatim>\<open>detectTorchSupport\<close>, given the first video track of the stored stream (ignored when
  no stream is stored).
\<close>

definition detectTorchSupport :: "videoTrack option \<Rightarrow> scanner \<Rightarrow> scanner" where
  "detectTorchSupport trk s =
     (case (case stream s of None \<Rightarrow> None | Some _ \<Rightarrow> trk) of
        None \<Rightarrow> s\<lparr> hasTorch := False \<rparr>
      | Some t \<Rightarrow>
          (case getCapabilities t of
             CapsTorch b \<Rightarrow> s\<lparr> hasTorch := b \<rparr>
           | _ \<Rightarrow> s\<lparr> hasTorch := False \<rparr>))"

text \<open>\<^verbatim>\<open>mapError\<close>: the name is \<^verbatim>\<open>err?.name || err?.constructor?.name\<close>.\<close>

definition nameOf :: "jsError option \<Rightarrow> jsstring option" where
  "nameOf err =
     (case err of
        None \<Rightarrow> None
      | Some e \<Rightarrow>
          (case errName e of
             Some n \<Rightarrow> (if n = [] then ctorName e else Some n)
           | None \<Rightarrow> ctorName e))"

definition mapError :: "jsError option \<Rightarrow> jsstring option" where
  "mapError err =
     (case nameOf err of
        None \<Rightarrow> None
      | Some n \<Rightarrow>
          if n = js ''NotAllowedError'' then Some msgNotAllowed
          else if n = js ''NotFoundError'' then Some msgNotFound
          else if n = js ''NotReadableError'' then Some msgNotReadable
          else if n = js ''OverconstrainedError'' then Some msgOverconstrained
          else if n = js ''SecurityError'' then Some msgSecurity
          else None)"

definition setError :: "jsstring \<Rightarrow> scanner \<Rightarrow> scanner" where
  "setError msg s = stopTracks (s\<lparr> errorMsg := Some msg, scanning := False \<rparr>)"

subsection \<open>The operations\<close>

definition stopScan :: "scanner \<Rightarrow> scanner" where
  "stopScan s =
     (stopTracks
        (s\<lparr> stoppedControls := stoppedControls s @ optList (controls s),
            controls := None \<rparr>))
      \<lparr> scanning := False, torchOn := False \<rparr>"

text \<open>
  \<^verbatim>\<open>refreshDevices\<close>, given what \<^verbatim>\<open>listVideoInputDevices\<close> answers and, when
  \<^verbatim>\<open>navigator.mediaDevices.enumerateDevices\<close> exists, what it answers. The state is
  the one after the whole method has run.
\<close>

definition selectFirst :: "scanner \<Rightarrow> scanner" where
  "selectFirst s =
     s\<lparr> selectedDeviceId :=
          (case devices s of [] \<Rightarrow> None | first # _ \<Rightarrow> nonEmpty (deviceId first)) \<rparr>"

definition refreshFailed :: "scanner \<Rightarrow> scanner" where
  "refreshFailed s = (setError msgDevices s)\<lparr> consoleErrors := Suc (consoleErrors s) \<rparr>"

definition refreshDevices ::
  "mediaDeviceInfo list promised \<Rightarrow> mediaDeviceInfo list promised option \<Rightarrow> scanner \<Rightarrow> scanner"
where
  "refreshDevices listed enumerated s =
     (case listed of
        Rejects \<Rightarrow> refreshFailed s
      | Resolves ds \<Rightarrow>
          (let s1 = s\<lparr> devices := ds \<rparr> in
           if ds = [] then
             (case enumerated of
                None \<Rightarrow> selectFirst s1
              | Some Rejects \<Rightarrow> refreshFailed s1
              | Some (Resolves all) \<Rightarrow>
                  selectFirst (s1\<lparr> devices := filter (\<lambda>d. kind d = VideoInput) all \<rparr>))
           else selectFirst s1))"

text \<open>
  \<^verbatim>\<open>startScan\<close>: resets the flags, builds the constraints, calls
  \<^verbatim>\<open>decodeFromConstraints\<close> (which settles later) and schedules a refresh.
\<close>

definition buildConstraints :: "scanner \<Rightarrow> videoConstraints" where
  "buildConstraints s =
     (case selectedDeviceId s of
        None \<Rightarrow> FacingEnvironment
      | Some d \<Rightarrow> if d = [] then FacingEnvironment else ExactDevice d)"

definition startScan :: "scanner \<Rightarrow> scanner" where
  "startScan s =
     s\<lparr> scanning := True, errorMsg := None, resultText := [], torchOn := False,
        hasTorch := False,
        pendingStarts := pendingStarts s @ [buildConstraints s],
        scheduledRefreshes := Suc (scheduledRefreshes s) \<rparr>"

text \<open>
  The callback that \<^verbatim>\<open>startScan\<close> hands to the decoder, invoked with a result text or
  not, an error or not, the controls handle of the loop, and (for the torch detection)
  the first video track of the stream.
\<close>

definition onDecode ::
  "jsstring option \<Rightarrow> jsError option \<Rightarrow> nat \<Rightarrow> videoTrack option \<Rightarrow> scanner \<Rightarrow> scanner"
where
  "onDecode result err c trk s =
     (let s1 = s\<lparr> controls := orElse (controls s) (Some c) \<rparr>;
          s2 = s1\<lparr> stream := orElse (srcObject s1) (stream s1) \<rparr>;
          s3 = detectTorchSupport trk s2
      in case result of
           Some text \<Rightarrow> stopScan (s3\<lparr> resultText := trim text \<rparr>)
         | None \<Rightarrow>
             (case err of
                None \<Rightarrow> s3
              | Some e \<Rightarrow>
                  (case mapError (Some e) of
                     Some msg \<Rightarrow> setError msg s3
                   | None \<Rightarrow> s3)))"

text \<open>The \<^verbatim>\<open>catch\<close> handler on the promise of \<^verbatim>\<open>decodeFromConstraints\<close>.\<close>

definition onStartRejected :: "jsError option \<Rightarrow> scanner \<Rightarrow> scanner" where
  "onStartRejected e s =
     (setError (case mapError e of Some m \<Rightarrow> m | None \<Rightarrow> msgStartFailed) s)
       \<lparr> scanning := False \<rparr>"

definition onDeviceChange :: "jsstring \<Rightarrow> scanner \<Rightarrow> scanner" where
  "onDeviceChange d s =
     (let s1 = s\<lparr> selectedDeviceId := nonEmpty d \<rparr>
      in if scanning s1 then stopScan s1 else s1)"

text \<open>
  \<^verbatim>\<open>toggleTorch\<close>, given the first video track of the stored stream (ignored when no
  stream is stored); without a track \<^verbatim>\<open>applyConstraints\<close> is not called and nothing
  fails.
\<close>

definition toggleTorch :: "videoTrack option \<Rightarrow> scanner \<Rightarrow> scanner" where
  "toggleTorch trk s =
     (if \<not> hasTorch s then s
      else
        (let s1 = s\<lparr> torchOn := \<not> torchOn s \<rparr>
         in case (case stream s of None \<Rightarrow> None | Some _ \<Rightarrow> trk) of
              None \<Rightarrow> s1
            | Some t \<Rightarrow>
                (case applyConstraints t of
                   Resolves _ \<Rightarrow> s1
                 | Rejects \<Rightarrow> s1\<lparr> torchOn := False, hasTorch := False \<rparr>)))"

text \<open>\<^verbatim>\<open>handleVisibility\<close>, given \<^verbatim>\<open>document.hidden\<close>.\<close>

definition handleVisibility :: "bool \<Rightarrow> scanner \<Rightarrow> scanner" where
  "handleVisibility hidden s = (if hidden \<and> scanning s then stopScan s else s)"

subsection \<open>The link classifier\<close>

text \<open>
  \<^verbatim>\<open>isUrl\<close> calls the browser's \<^verbatim>\<open>URL\<close> constructor, which is not part of the
  component: it is a parameter here, \<open>None\<close> when the constructor throws. Of the parsed
  URL the method reads the \<^verbatim>\<open>protocol\<close> only.
\<close>

record url =
  protocol :: jsstring

definition isUrl :: "(jsstring \<Rightarrow> url option) \<Rightarrow> jsstring \<Rightarrow> bool" where
  "isUrl newURL v =
     (case newURL v of
        Some u \<Rightarrow> protocol u = js ''http:'' \<or> protocol u = js ''https:''
      | None \<Rightarrow> False)"

text \<open>
  A stand-in for the constructor that knows two addresses and rejects everything else,
  for running \<open>isUrl\<close> on examples.
\<close>

definition exampleURL :: "jsstring \<Rightarrow> url option" where
  "exampleURL v =
     (if v = js ''https://example.com'' then Some \<lparr> protocol = js ''https:'' \<rparr>
      else if v = js ''ftp://x'' then Some \<lparr> protocol = js ''ftp:'' \<rparr>
      else None)"

subsection \<open>Sessions as sequences of events\<close>

text \<open>
  Everything runs on one event loop, so a session is a sequence of events, each handled
  to completion: calls of the public methods by the page, and the callbacks of the
  browser and the library.

  \<open>StreamAttached strm c\<close> is the library's side of a successful
  \<^verbatim>\<open>decodeFromConstraints\<close>: it has opened the stream \<open>strm\<close>, made it the
  \<^verbatim>\<open>srcObject\<close> of the video element and started a decoding loop with the controls
  handle \<open>c\<close>. The component's code does not run at that moment.
\<close>

datatype event =
    StartScan
  | StopScan
  | StreamAttached nat nat
  | StartRejected "jsError option"
  | DecodeCallback nat "jsstring option" "jsError option" "videoTrack option"
  | ToggleTorch "videoTrack option"
  | DeviceChange jsstring
  | VisibilityChange bool
  | RefreshDevices "mediaDeviceInfo list promised" "mediaDeviceInfo list promised option"

definition streamAttached :: "nat \<Rightarrow> nat \<Rightarrow> scanner \<Rightarrow> scanner" where
  "streamAttached strm c s =
     s\<lparr> srcObject := Some strm,
        openedStreams := openedStreams s @ [strm],
        issuedControls := issuedControls s @ [c],
        pendingStarts := tl (pendingStarts s) \<rparr>"

fun step :: "event \<Rightarrow> scanner \<Rightarrow> scanner" where
  "step StartScan s = startScan s"
| "step StopScan s = stopScan s"
| "step (StreamAttached strm c) s = streamAttached strm c s"
| "step (StartRejected e) s = (onStartRejected e s)\<lparr> pendingStarts := tl (pendingStarts s) \<rparr>"
| "step (DecodeCallback c result err trk) s = onDecode result err c trk s"
| "step (ToggleTorch trk) s = toggleTorch trk s"
| "step (DeviceChange d) s = onDeviceChange d s"
| "step (VisibilityChange hidden) s = handleVisibility hidden s"
| "step (RefreshDevices listed enumerated) s = refreshDevices listed enumerated s"

text \<open>
  What the collaborators can do: a call of \<^verbatim>\<open>decodeFromConstraints\<close> settles only if
  one is pending, a new stream and a new controls handle are fresh, and a decoding loop
  invokes the callback only with a handle that was issued and on which \<^verbatim>\<open>stop()\<close> has
  not been called.
\<close>

fun possible :: "event \<Rightarrow> scanner \<Rightarrow> bool" where
  "possible (StreamAttached strm c) s =
     (pendingStarts s \<noteq> [] \<and> strm \<notin> set (openedStreams s) \<and> c \<notin> set (issuedControls s))"
| "possible (StartRejected e) s = (pendingStarts s \<noteq> [])"
| "possible (DecodeCallback c result err trk) s =
     (c \<in> set (issuedControls s) \<and> c \<notin> set (stoppedControls s))"
| "possible e s = True"

text \<open>
  A page that calls \<^verbatim>\<open>startScan\<close> only on a session that holds nothing: no start is
  pending and no stream is attached or stored.
\<close>

definition tornDown :: "scanner \<Rightarrow> bool" where
  "tornDown s = (pendingStarts s = [] \<and> srcObject s = None \<and> stream s = None)"

fun disciplined :: "event \<Rightarrow> scanner \<Rightarrow> bool" where
  "disciplined StartScan s = tornDown s"
| "disciplined e s = possible e s"

fun exec :: "(event \<Rightarrow> scanner \<Rightarrow> bool) \<Rightarrow> event list \<Rightarrow> scanner \<Rightarrow> scanner option" where
  "exec ok [] s = Some s"
| "exec ok (e # es) s = (if ok e s then exec ok es (step e s) else None)"

text \<open>The streams that were opened and whose tracks have not been stopped.\<close>

definition openStreams :: "scanner \<Rightarrow> nat list" where
  "openStreams s = filter (\<lambda>x. x \<notin> set (releasedStreams s)) (openedStreams s)"

text \<open>
  The bookkeeping of streams that a disciplined session maintains: no stream is opened
  or released twice, only opened streams are released, every stream that is still open
  is the \<^verbatim>\<open>srcObject\<close> of the video element, the stored stream is that same stream or
  none, and a start is pending only while nothing is attached.
\<close>

definition streamsOk :: "scanner \<Rightarrow> bool" where
  "streamsOk s =
     (distinct (openedStreams s) \<and> distinct (releasedStreams s)
      \<and> set (releasedStreams s) \<subseteq> set (openedStreams s)
      \<and> length (pendingStarts s) \<le> 1
      \<and> (case srcObject s of
            None \<Rightarrow> stream s = None \<and> set (openedStreams s) \<subseteq> set (releasedStreams s)
          | Some h \<Rightarrow>
              h \<in> set (openedStreams s) \<and> h \<notin> set (releasedStreams s)
              \<and> set (openedStreams s) - {h} \<subseteq> set (releasedStreams s)
              \<and> (stream s = None \<or> stream s = Some h)
              \<and> pendingStarts s = []))"

subsection \<open>Example values\<close>

text \<open>
  A \<^verbatim>\<open>DOMException\<close> with the given name; the exception the decoder reports for a frame
  without a code; a camera; a track with a torch whose constraints can be applied.
\<close>

definition domException :: "string \<Rightarrow> jsError" where
  "domException n = \<lparr> errName = Some (js n), ctorName = Some (js ''DOMException'') \<rparr>"

definition notFoundException :: jsError where
  "notFoundException =
     \<lparr> errName = Some (js ''NotFoundException''), ctorName = Some (js ''NotFoundException'') \<rparr>"

definition camera :: "string \<Rightarrow> mediaDeviceInfo" where
  "camera d = \<lparr> deviceId = js d, kind = VideoInput, label = [] \<rparr>"

definition torchTrack :: videoTrack where
  "torchTrack = \<lparr> getCapabilities = CapsTorch True, applyConstraints = Resolves () \<rparr>"

text \<open>
  Two sessions one after the other: a start, its stream, a frame without a code, a
  stop; then a second start and its stream.
\<close>

definition twoSessions :: "event list" where
  "twoSessions =
     [StartScan, StreamAttached 1 1, DecodeCallback 1 None (Some notFoundException) None,
      StopScan, StartScan, StreamAttached 2 2]"

section \<open>Properties\<close>

subsection \<open>What each utility does to each field\<close>

lemma stopTracks_fields [simp]:
  "controls (stopTracks s) = controls s"
  "stream (stopTracks s) = None"
  "srcObject (stopTracks s) = None"
  "devices (stopTracks s) = devices s"
  "selectedDeviceId (stopTracks s) = selectedDeviceId s"
  "scanning (stopTracks s) = scanning s"
  "resultText (stopTracks s) = resultText s"
  "errorMsg (stopTracks s) = errorMsg s"
  "hasTorch (stopTracks s) = hasTorch s"
  "torchOn (stopTracks s) = torchOn s"
  "stoppedControls (stopTracks s) = stoppedControls s"
  "releasedStreams (stopTracks s) =
     releasedStreams s @ optList (orElse (srcObject s) (stream s))"
  "pendingStarts (stopTracks s) = pendingStarts s"
  "scheduledRefreshes (stopTracks s) = scheduledRefreshes s"
  "consoleErrors (stopTracks s) = consoleErrors s"
  "openedStreams (stopTracks s) = openedStreams s"
  "issuedControls (stopTracks s) = issuedControls s"
  by (simp_all add: stopTracks_def)

lemma setError_fields [simp]:
  "controls (setError m s) = controls s"
  "stream (setError m s) = None"
  "srcObject (setError m s) = None"
  "devices (setError m s) = devices s"
  "selectedDeviceId (setError m s) = selectedDeviceId s"
  "scanning (setError m s) = False"
  "resultText (setError m s) = resultText s"
  "errorMsg (setError m s) = Some m"
  "hasTorch (setError m s) = hasTorch s"
  "torchOn (setError m s) = torchOn s"
  "stoppedControls (setError m s) = stoppedControls s"
  "releasedStreams (setError m s) =
     releasedStreams s @ optList (orElse (srcObject s) (stream s))"
  "pendingStarts (setError m s) = pendingStarts s"
  "scheduledRefreshes (setError m s) = scheduledRefreshes s"
  "consoleErrors (setError m s) = consoleErrors s"
  "openedStreams (setError m s) = openedStreams s"
  "issuedControls (setError m s) = issuedControls s"
  by (simp_all add: setError_def)

lemma stopScan_fields [simp]:
  "controls (stopScan s) = None"
  "stream (stopScan s) = None"
  "srcObject (stopScan s) = None"
  "devices (stopScan s) = devices s"
  "selectedDeviceId (stopScan s) = selectedDeviceId s"
  "scanning (stopScan s) = False"
  "resultText (stopScan s) = resultText s"
  "errorMsg (stopScan s) = errorMsg s"
  "hasTorch (stopScan s) = hasTorch s"
  "torchOn (stopScan s) = False"
  "stoppedControls (stopScan s) = stoppedControls s @ optList (controls s)"
  "releasedStreams (stopScan s) =
     releasedStreams s @ optList (orElse (srcObject s) (stream s))"
  "pendingStarts (stopScan s) = pendingStarts s"
  "scheduledRefreshes (stopScan s) = scheduledRefreshes s"
  "consoleErrors (stopScan s) = consoleErrors s"
  "openedStreams (stopScan s) = openedStreams s"
  "issuedControls (stopScan s) = issuedControls s"
  by (simp_all add: stopScan_def)

lemma detectTorchSupport_fields [simp]:
  "controls (detectTorchSupport t s) = controls s"
  "stream (detectTorchSupport t s) = stream s"
  "srcObject (detectTorchSupport t s) = srcObject s"
  "devices (detectTorchSupport t s) = devices s"
  "selectedDeviceId (detectTorchSupport t s) = selectedDeviceId s"
  "scanning (detectTorchSupport t s) = scanning s"
  "resultText (detectTorchSupport t s) = resultText s"
  "errorMsg (detectTorchSupport t s) = errorMsg s"
  "torchOn (detectTorchSupport t s) = torchOn s"
  "stoppedControls (detectTorchSupport t s) = stoppedControls s"
  "releasedStreams (detectTorchSupport t s) = releasedStreams s"
  "pendingStarts (detectTorchSupport t s) = pendingStarts s"
  "scheduledRefreshes (detectTorchSupport t s) = scheduledRefreshes s"
  "consoleErrors (detectTorchSupport t s) = consoleErrors s"
  "openedStreams (detectTorchSupport t s) = openedStreams s"
  "issuedControls (detectTorchSupport t s) = issuedControls s"
  by (simp_all add: detectTorchSupport_def split: option.splits capabilities.splits)

lemma stopScan_twice: "stopScan (stopScan s) = stopScan s"
  by (simp add: stopScan_def stopTracks_def optList_def orElse_def)

lemmas run_defs =
  initial_def startScan_def streamAttached_def onDecode_def orElse_def optList_def
  mapError_def nameOf_def js_def buildConstraints_def detectTorchSupport_def
  toggleTorch_def refreshDevices_def refreshFailed_def selectFirst_def nonEmpty_def
  onDeviceChange_def handleVisibility_def onStartRejected_def
  domException_def notFoundException_def torchTrack_def camera_def

subsection \<open>A classified error in the decode callback\<close>

text \<open>
  What the callback does with an error that \<^verbatim>\<open>mapError\<close> classifies and no result: it
  records the message, clears \<^verbatim>\<open>scanning\<close> and releases the tracks of the stream it
  holds. It calls \<^verbatim>\<open>stop()\<close> on no controls handle and keeps the handle stored.
\<close>

lemma onDecode_classified_error:
  assumes "mapError (Some e) = Some msg"
  shows "errorMsg (onDecode None (Some e) c trk s) = Some msg"
    and "scanning (onDecode None (Some e) c trk s) = False"
    and "stream (onDecode None (Some e) c trk s) = None"
    and "srcObject (onDecode None (Some e) c trk s) = None"
    and "releasedStreams (onDecode None (Some e) c trk s)
           = releasedStreams s @ optList (orElse (srcObject s) (stream s))"
    and "stoppedControls (onDecode None (Some e) c trk s) = stoppedControls s"
    and "controls (onDecode None (Some e) c trk s) = orElse (controls s) (Some c)"
  using assms
  by (simp_all add: onDecode_def Let_def)
    (simp add: orElse_def split: option.splits)

text \<open>
  C1. The claim asks that a classified error in the callback also cancels the decode
  loop. Here a session is started, its stream 1 is attached with controls handle 1, and
  the callback receives a \<^verbatim>\<open>NotAllowedError\<close>: the message is recorded, \<^verbatim>\<open>scanning\<close> is
  false and stream 1 is released, but \<^verbatim>\<open>stop()\<close> was called on no handle and handle 1
  is still stored. The loop can therefore invoke the callback again, and a second
  invocation with a \<^verbatim>\<open>NotFoundError\<close> is honoured: it replaces the recorded message.
\<close>

theorem classified_error_keeps_decode_loop:
  "exec possible
     [StartScan, StreamAttached 1 1,
      DecodeCallback 1 None (Some (domException ''NotAllowedError'')) None]
     initial
   = Some (initial\<lparr> controls := Some 1, scanning := False,
        errorMsg := Some msgNotAllowed, stoppedControls := [], releasedStreams := [1],
        scheduledRefreshes := 1, openedStreams := [1], issuedControls := [1] \<rparr>)
   \<and> exec possible
     [StartScan, StreamAttached 1 1,
      DecodeCallback 1 None (Some (domException ''NotAllowedError'')) None,
      DecodeCallback 1 None (Some (domException ''NotFoundError'')) None]
     initial
   = Some (initial\<lparr> controls := Some 1, scanning := False,
        errorMsg := Some msgNotFound, stoppedControls := [], releasedStreams := [1],
        scheduledRefreshes := 1, openedStreams := [1], issuedControls := [1] \<rparr>)
   \<and> msgNotFound \<noteq> msgNotAllowed"
  by (simp add: run_defs msgNotFound_def msgNotAllowed_def)

subsection \<open>One stream at a time\<close>

lemma streamsOk_stopTracks: "streamsOk s \<Longrightarrow> streamsOk (stopTracks s)"
  by (auto simp add: streamsOk_def stopTracks_def optList_def orElse_def split: option.splits)

lemma streamsOk_cong:
  "openedStreams s' = openedStreams s \<Longrightarrow> releasedStreams s' = releasedStreams s \<Longrightarrow>
   pendingStarts s' = pendingStarts s \<Longrightarrow> srcObject s' = srcObject s \<Longrightarrow> stream s' = stream s \<Longrightarrow>
   streamsOk s' = streamsOk s"
  by (simp add: streamsOk_def split: option.splits)

lemma streamsOk_stopScan: "streamsOk s \<Longrightarrow> streamsOk (stopScan s)"
proof -
  assume "streamsOk s"
  then have "streamsOk (stopTracks s)" by (rule streamsOk_stopTracks)
  moreover have "streamsOk (stopScan s) = streamsOk (stopTracks s)"
    by (rule streamsOk_cong) simp_all
  ultimately show ?thesis by simp
qed

lemma streamsOk_setError: "streamsOk s \<Longrightarrow> streamsOk (setError m s)"
proof -
  assume "streamsOk s"
  then have "streamsOk (stopTracks s)" by (rule streamsOk_stopTracks)
  moreover have "streamsOk (setError m s) = streamsOk (stopTracks s)"
    by (rule streamsOk_cong) simp_all
  ultimately show ?thesis by simp
qed

lemma streamsOk_onDecode: "streamsOk s \<Longrightarrow> streamsOk (onDecode result err c trk s)"
proof -
  assume ok: "streamsOk s"
  let ?s2 = "s\<lparr> controls := orElse (controls s) (Some c), stream := orElse (srcObject s) (stream s) \<rparr>"
  have ok2: "streamsOk ?s2" using ok
    by (auto simp add: streamsOk_def orElse_def split: option.splits)
  have "streamsOk (detectTorchSupport trk ?s2) = streamsOk ?s2"
    by (rule streamsOk_cong) simp_all
  with ok2 have ok3: "streamsOk (detectTorchSupport trk ?s2)" by simp
  have ok4: "streamsOk ((detectTorchSupport trk ?s2)\<lparr> resultText := x \<rparr>)" for x
    using ok3 by (simp add: streamsOk_def split: option.splits)
  show ?thesis
    by (simp add: onDecode_def Let_def ok3 ok4 streamsOk_stopScan streamsOk_setError
        split: option.splits)
qed

lemma streamsOk_refresh: "streamsOk s \<Longrightarrow> streamsOk (refreshDevices l e s)"
proof -
  assume ok: "streamsOk s"
  have a: "streamsOk (s\<lparr> devices := x \<rparr>)" for x using ok by (simp add: streamsOk_def split: option.splits)
  have b: "streamsOk t \<Longrightarrow> streamsOk (selectFirst t)" for t
    by (simp add: streamsOk_def selectFirst_def split: option.splits)
  have c: "streamsOk t \<Longrightarrow> streamsOk (refreshFailed t)" for t
    using streamsOk_setError [of t msgDevices]
    by (simp add: streamsOk_def refreshFailed_def split: option.splits)
  have d: "streamsOk (s\<lparr> devices := x, devices := y \<rparr>)" for x y
    using ok by (simp add: streamsOk_def split: option.splits)
  show ?thesis using ok a b c d
    by (simp add: refreshDevices_def Let_def split: promised.splits option.splits)
qed

lemma streamsOk_step: "disciplined e s \<Longrightarrow> streamsOk s \<Longrightarrow> streamsOk (step e s)"
proof (cases e)
  case StartScan
  assume "disciplined e s" "streamsOk s"
  with StartScan show ?thesis
    by (simp add: tornDown_def streamsOk_def startScan_def split: option.splits)
next
  case StopScan
  assume "disciplined e s" "streamsOk s"
  with StopScan show ?thesis by (simp add: streamsOk_stopScan)
next
  case (StreamAttached strm c)
  assume "disciplined e s" "streamsOk s"
  with StreamAttached show ?thesis
    by (cases "pendingStarts s")
      (auto simp add: streamsOk_def streamAttached_def split: option.splits)
next
  case (StartRejected x)
  assume "disciplined e s" and ok: "streamsOk s"
  have "streamsOk (setError m s)" for m using ok by (rule streamsOk_setError)
  then have "streamsOk ((onStartRejected x s)\<lparr> pendingStarts := tl (pendingStarts s) \<rparr>)"
    by (cases "pendingStarts s")
      (simp_all add: onStartRejected_def streamsOk_def split: option.splits)
  with StartRejected show ?thesis by simp
next
  case (DecodeCallback c r er trk)
  assume "disciplined e s" "streamsOk s"
  with DecodeCallback show ?thesis by (simp add: streamsOk_onDecode)
next
  case (ToggleTorch trk)
  assume "disciplined e s" "streamsOk s"
  moreover have "streamsOk (toggleTorch trk s) = streamsOk s"
    by (rule streamsOk_cong)
      (simp_all add: toggleTorch_def Let_def split: option.splits promised.splits)
  ultimately show ?thesis using ToggleTorch by simp
next
  case (DeviceChange d)
  assume "disciplined e s" and ok: "streamsOk s"
  have "streamsOk (s\<lparr> selectedDeviceId := nonEmpty d \<rparr>)"
    using ok by (simp add: streamsOk_def split: option.splits)
  with DeviceChange show ?thesis by (simp add: onDeviceChange_def Let_def streamsOk_stopScan)
next
  case (VisibilityChange h)
  assume "disciplined e s" "streamsOk s"
  with VisibilityChange show ?thesis by (simp add: handleVisibility_def streamsOk_stopScan)
next
  case (RefreshDevices l en)
  assume "disciplined e s" "streamsOk s"
  with RefreshDevices show ?thesis by (simp add: streamsOk_refresh)
qed

lemma streamsOk_exec:
  "exec disciplined es s = Some w \<Longrightarrow> streamsOk s \<Longrightarrow> streamsOk w"
  by (induction es arbitrary: s) (auto simp add: streamsOk_step split: if_splits)

lemma streamsOk_initial: "streamsOk initial"
  by (simp add: streamsOk_def initial_def)

lemma filter_eq_single: "distinct xs \<Longrightarrow> h \<in> set xs \<Longrightarrow> filter (\<lambda>x. x = h) xs = [h]"
  by (induction xs) (auto simp add: filter_empty_conv)

lemma count_list_distinct: "distinct xs \<Longrightarrow> x \<in> set xs \<Longrightarrow> count_list xs x = 1"
  by (induction xs) auto

lemma streamsOk_open: "streamsOk s \<Longrightarrow> openStreams s = optList (srcObject s)"
proof -
  assume ok: "streamsOk s"
  show ?thesis
  proof (cases "srcObject s")
    case None
    with ok have "set (openedStreams s) \<subseteq> set (releasedStreams s)"
      by (simp add: streamsOk_def split: option.splits)
    then have "filter (\<lambda>x. x \<notin> set (releasedStreams s)) (openedStreams s) = []"
      by (auto simp add: filter_empty_conv)
    with None show ?thesis by (simp add: openStreams_def optList_def)
  next
    case (Some h)
    with ok have d: "distinct (openedStreams s)" and h: "h \<in> set (openedStreams s)"
      and n: "h \<notin> set (releasedStreams s)"
      and r: "set (openedStreams s) - {h} \<subseteq> set (releasedStreams s)"
      by (simp_all add: streamsOk_def split: option.splits)
    have "filter (\<lambda>x. x \<notin> set (releasedStreams s)) (openedStreams s)
        = filter (\<lambda>x. x = h) (openedStreams s)"
      using n r by (intro filter_cong) auto
    also have "\<dots> = [h]" using d h by (rule filter_eq_single)
    finally show ?thesis using Some by (simp add: openStreams_def optList_def)
  qed
qed


text \<open>
  C2, as the code has it. In every sequence of events in which \<^verbatim>\<open>startScan\<close> is called
  only while no start is pending and no stream is attached or stored, at most one
  stream is open after every event, no stream is released twice, and a \<^verbatim>\<open>stopScan\<close>
  releases whatever is open: after it, every stream opened so far has been released
  exactly once.
\<close>

theorem disciplined_single_stream:
  "exec disciplined es initial = Some w \<Longrightarrow>
     length (openStreams w) \<le> 1
     \<and> distinct (releasedStreams w)
     \<and> openStreams (stopScan w) = []
     \<and> (\<forall>x \<in> set (openedStreams w). count_list (releasedStreams (stopScan w)) x = 1)"
proof -
  assume ex: "exec disciplined es initial = Some w"
  then have ok: "streamsOk w" using streamsOk_initial by (rule streamsOk_exec)
  then have ok': "streamsOk (stopScan w)" by (rule streamsOk_stopScan)
  have 1: "length (openStreams w) \<le> 1"
    using streamsOk_open [OF ok] by (simp add: optList_def split: option.splits)
  have 2: "distinct (releasedStreams w)" using ok by (simp add: streamsOk_def)
  have 3: "openStreams (stopScan w) = []"
    using streamsOk_open [OF ok'] by (simp add: optList_def)
  have d: "distinct (releasedStreams (stopScan w))" using ok' by (simp add: streamsOk_def)
  have "set (openedStreams (stopScan w)) \<subseteq> set (releasedStreams (stopScan w))"
    using ok' by (simp add: streamsOk_def)
  then have sub: "set (openedStreams w) \<subseteq> set (releasedStreams (stopScan w))" by simp
  have 4: "\<forall>x \<in> set (openedStreams w). count_list (releasedStreams (stopScan w)) x = 1"
  proof
    fix x assume "x \<in> set (openedStreams w)"
    with sub have m: "x \<in> set (releasedStreams (stopScan w))" by blast
    from d m show "count_list (releasedStreams (stopScan w)) x = 1"
      by (rule count_list_distinct)
  qed
  from 1 2 3 4 show ?thesis by blast
qed

text \<open>
  C2 on two sessions run one after the other: the second stream is the only one open,
  and after a stop both streams have been released once.
\<close>

theorem disciplined_single_stream_witness:
  "exec disciplined twoSessions initial
     = Some (initial\<lparr> srcObject := Some 2, scanning := True, stoppedControls := [1],
          releasedStreams := [1], scheduledRefreshes := 2, openedStreams := [1, 2],
          issuedControls := [1, 2] \<rparr>)
   \<and> openStreams (initial\<lparr> srcObject := Some 2, scanning := True, stoppedControls := [1],
          releasedStreams := [1], scheduledRefreshes := 2, openedStreams := [1, 2],
          issuedControls := [1, 2] \<rparr>) = [2]
   \<and> releasedStreams (stopScan (initial\<lparr> srcObject := Some 2, scanning := True,
          stoppedControls := [1], releasedStreams := [1], scheduledRefreshes := 2,
          openedStreams := [1, 2], issuedControls := [1, 2] \<rparr>)) = [1, 2]"
proof -
  have run: "exec disciplined twoSessions initial
     = Some (initial\<lparr> srcObject := Some 2, scanning := True, stoppedControls := [1],
          releasedStreams := [1], scheduledRefreshes := 2, openedStreams := [1, 2],
          issuedControls := [1, 2] \<rparr>)"
    by (simp add: twoSessions_def run_defs tornDown_def)
  show ?thesis
    using run disciplined_single_stream [OF run]
    by (simp add: openStreams_def initial_def optList_def orElse_def)
qed

text \<open>
  C2 as stated fails. \<^verbatim>\<open>startScan\<close> called while a session is scanning stops nothing:
  after the second stream is attached, streams 1 and 2 are both open; and after a
  \<^verbatim>\<open>stopScan\<close> stream 1 is still open, although the component has no reference to it
  any more.
\<close>

theorem restart_opens_second_stream:
  "map_option openStreams
     (exec possible
        [StartScan, StreamAttached 1 1,
         DecodeCallback 1 None (Some notFoundException) None,
         StartScan, StreamAttached 2 2]
        initial)
   = Some [1, 2]
   \<and> map_option openStreams
     (exec possible
        [StartScan, StreamAttached 1 1,
         DecodeCallback 1 None (Some notFoundException) None,
         StartScan, StreamAttached 2 2, StopScan]
        initial)
   = Some [1]"
  by (simp add: run_defs openStreams_def)

subsection \<open>Refreshing the device list\<close>

lemma refreshDevices_rejected:
  "refreshDevices Rejects enumerated s
     = (setError msgDevices s)\<lparr> consoleErrors := Suc (consoleErrors s) \<rparr>"
  by (simp add: refreshDevices_def refreshFailed_def)

text \<open>
  C3. The claim asks that a failed listing leaves a running scan alone. Here a session
  is scanning on stream 1 when a refresh runs and \<^verbatim>\<open>listVideoInputDevices\<close> rejects: the
  error is caught, logged with \<^verbatim>\<open>console.error\<close> and surfaced as the generic message,
  but through \<^verbatim>\<open>setError\<close>, which sets \<^verbatim>\<open>scanning\<close> to false and stops the tracks of
  stream 1. The controls handle is neither stopped nor forgotten.
\<close>

theorem refresh_failure_ends_scan:
  "exec possible
     [StartScan, StreamAttached 1 1, DecodeCallback 1 None (Some notFoundException) None]
     initial
   = Some (initial\<lparr> controls := Some 1, stream := Some 1, srcObject := Some 1,
        scanning := True, scheduledRefreshes := 1, openedStreams := [1],
        issuedControls := [1] \<rparr>)
   \<and> exec possible
     [StartScan, StreamAttached 1 1, DecodeCallback 1 None (Some notFoundException) None,
      RefreshDevices Rejects None]
     initial
   = Some (initial\<lparr> controls := Some 1, stream := None, srcObject := None,
        scanning := False, errorMsg := Some msgDevices, stoppedControls := [],
        releasedStreams := [1], scheduledRefreshes := 1, consoleErrors := 1,
        openedStreams := [1], issuedControls := [1] \<rparr>)"
  by (simp add: run_defs)

text \<open>
  C4, as the code has it. A refresh in which neither \<^verbatim>\<open>listVideoInputDevices\<close> nor
  the fallback \<^verbatim>\<open>enumerateDevices\<close> fails sets \<^verbatim>\<open>selectedDeviceId\<close> to the id of the
  first device of the refreshed list (to undefined when the list is empty or that id is
  the empty string), whatever was selected before, and changes nothing but the device
  list and the selection. The refreshed list is the one \<^verbatim>\<open>listVideoInputDevices\<close>
  returned, or, when that is empty and \<^verbatim>\<open>enumerateDevices\<close> exists, the video inputs
  among what \<^verbatim>\<open>enumerateDevices\<close> returned. A refresh in which one of the two calls
  fails leaves \<^verbatim>\<open>selectedDeviceId\<close> as it was.
\<close>

theorem refresh_selects_first_device:
  "(ds \<noteq> [] \<longrightarrow>
      refreshDevices (Resolves ds) enumerated s
        = s\<lparr> devices := ds, selectedDeviceId := nonEmpty (deviceId (hd ds)) \<rparr>)
   \<and> refreshDevices (Resolves []) None s = s\<lparr> devices := [], selectedDeviceId := None \<rparr>
   \<and> refreshDevices (Resolves []) (Some (Resolves all)) s
       = s\<lparr> devices := filter (\<lambda>d. kind d = VideoInput) all,
            selectedDeviceId :=
              (case filter (\<lambda>d. kind d = VideoInput) all of
                 [] \<Rightarrow> None
               | first # _ \<Rightarrow> nonEmpty (deviceId first)) \<rparr>
   \<and> selectedDeviceId (refreshDevices Rejects enumerated s) = selectedDeviceId s
   \<and> selectedDeviceId (refreshDevices (Resolves []) (Some Rejects) s) = selectedDeviceId s"
  by (cases ds) (simp_all add: refreshDevices_def selectFirst_def refreshFailed_def)

text \<open>
  C4 on examples: two cameras are listed while the second one is selected, and the
  refresh selects the first; the listing is empty and the fallback fails while the
  second camera is selected, and the selection stays.
\<close>

theorem refresh_selects_first_device_witness:
  "[camera ''cam-1'', camera ''cam-2''] \<noteq> []
   \<and> refreshDevices (Resolves [camera ''cam-1'', camera ''cam-2'']) None
       (initial\<lparr> selectedDeviceId := Some (js ''cam-2'') \<rparr>)
     = initial\<lparr> devices := [camera ''cam-1'', camera ''cam-2''],
         selectedDeviceId := Some (js ''cam-1'') \<rparr>
   \<and> selectedDeviceId
       (refreshDevices (Resolves []) (Some Rejects)
          (initial\<lparr> selectedDeviceId := Some (js ''cam-2'') \<rparr>))
     = Some (js ''cam-2'')"
  using refresh_selects_first_device
    [of "[camera ''cam-1'', camera ''cam-2'']" None
      "initial\<lparr> selectedDeviceId := Some (js ''cam-2'') \<rparr>" "[]"]
  by (simp add: nonEmpty_def camera_def js_def)

text \<open>
  C4 as stated fails: with the device \<^verbatim>\<open>cam-2\<close> selected through \<^verbatim>\<open>onDeviceChange\<close>, a
  refresh that lists \<^verbatim>\<open>cam-1\<close> and \<^verbatim>\<open>cam-2\<close> changes the selection to \<^verbatim>\<open>cam-1\<close>.
\<close>

theorem refresh_overrides_selection:
  "selectedDeviceId (onDeviceChange (js ''cam-2'') initial) = Some (js ''cam-2'')
   \<and> selectedDeviceId
       (refreshDevices (Resolves [camera ''cam-1'', camera ''cam-2'']) None
          (onDeviceChange (js ''cam-2'') initial))
     = Some (js ''cam-1'')"
  by (simp add: run_defs)

subsection \<open>A decoded result\<close>

lemma trim_tail:
  "dropWhile isWhiteSpace payload
     = trim payload @ rev (takeWhile isWhiteSpace (rev (dropWhile isWhiteSpace payload)))"
proof -
  let ?m = "dropWhile isWhiteSpace payload"
  have "rev (takeWhile isWhiteSpace (rev ?m) @ dropWhile isWhiteSpace (rev ?m)) = rev (rev ?m)"
    by (simp only: takeWhile_dropWhile_id)
  then have "rev (dropWhile isWhiteSpace (rev ?m)) @ rev (takeWhile isWhiteSpace (rev ?m)) = ?m"
    by (simp only: rev_append rev_rev_ident)
  then show ?thesis by (simp only: trim_def)
qed

lemma trim_split:
  "\<exists>pre post. payload = pre @ trim payload @ post \<and> list_all isWhiteSpace pre \<and> list_all isWhiteSpace post"
proof -
  let ?m = "dropWhile isWhiteSpace payload"
  have a: "payload = takeWhile isWhiteSpace payload @ ?m" by simp
  have b: "?m = trim payload @ rev (takeWhile isWhiteSpace (rev ?m))"
    by (rule trim_tail)
  have c: "list_all isWhiteSpace (takeWhile isWhiteSpace payload)"
    by (auto simp add: list_all_iff dest: set_takeWhileD)
  have d: "list_all isWhiteSpace (rev (takeWhile isWhiteSpace (rev ?m)))"
    by (auto simp add: list_all_iff dest: set_takeWhileD)
  from a b have "payload = takeWhile isWhiteSpace payload @ trim payload @ rev (takeWhile isWhiteSpace (rev ?m))"
    by simp
  with c d show ?thesis by blast
qed

lemma trim_ends:
  "trim payload = [] \<or> (\<not> isWhiteSpace (hd (trim payload)) \<and> \<not> isWhiteSpace (last (trim payload)))"
proof (cases "trim payload = []")
  case True then show ?thesis by simp
next
  case False
  let ?m = "dropWhile isWhiteSpace payload"
  let ?r = "dropWhile isWhiteSpace (rev ?m)"
  from False have r: "?r \<noteq> []" by (simp add: trim_def)
  then have l: "\<not> isWhiteSpace (hd ?r)" by (rule hd_dropWhile)
  have "last (trim payload) = hd ?r" using r by (simp add: trim_def last_rev)
  with l have 1: "\<not> isWhiteSpace (last (trim payload))" by simp
  have m: "?m \<noteq> []"
  proof
    assume a: "?m = []"
    have "?r = []" unfolding a by simp
    with r show False by simp
  qed
  then have hm: "\<not> isWhiteSpace (hd ?m)" by (rule hd_dropWhile)
  have "?m = trim payload @ rev (takeWhile isWhiteSpace (rev ?m))" by (rule trim_tail)
  then have "hd ?m = hd (trim payload @ rev (takeWhile isWhiteSpace (rev ?m)))" by simp
  with False have "hd ?m = hd (trim payload)" by simp
  with hm 1 show ?thesis by simp
qed

text \<open>
  What the callback does with a result: \<^verbatim>\<open>resultText\<close> becomes the payload trimmed,
  \<^verbatim>\<open>scanning\<close> becomes false, and \<^verbatim>\<open>stopScan\<close> runs. \<^verbatim>\<open>stop()\<close> is called on the
  stored controls handle, and on the invocation's handle only when none was stored; the
  tracks of the stream the session holds are stopped. The trimmed payload is the
  payload without a run of whitespace at each end, and neither begins nor ends with
  whitespace.
\<close>

lemma onDecode_result:
  "resultText (onDecode (Some payload) err c trk s) = trim payload
   \<and> scanning (onDecode (Some payload) err c trk s) = False
   \<and> controls (onDecode (Some payload) err c trk s) = None
   \<and> stoppedControls (onDecode (Some payload) err c trk s)
       = stoppedControls s @ [case controls s of Some c0 \<Rightarrow> c0 | None \<Rightarrow> c]
   \<and> stream (onDecode (Some payload) err c trk s) = None
   \<and> srcObject (onDecode (Some payload) err c trk s) = None
   \<and> releasedStreams (onDecode (Some payload) err c trk s)
       = releasedStreams s @ optList (orElse (srcObject s) (stream s))
   \<and> (\<exists>pre post. payload = pre @ trim payload @ post
         \<and> list_all isWhiteSpace pre \<and> list_all isWhiteSpace post)
   \<and> (trim payload = []
       \<or> (\<not> isWhiteSpace (hd (trim payload)) \<and> \<not> isWhiteSpace (last (trim payload))))"
proof -
  have "orElse (srcObject s) (orElse (srcObject s) (stream s)) = orElse (srcObject s) (stream s)"
    by (simp add: orElse_def split: option.splits)
  then have "resultText (onDecode (Some payload) err c trk s) = trim payload
   \<and> scanning (onDecode (Some payload) err c trk s) = False
   \<and> controls (onDecode (Some payload) err c trk s) = None
   \<and> stoppedControls (onDecode (Some payload) err c trk s)
       = stoppedControls s @ [case controls s of Some c0 \<Rightarrow> c0 | None \<Rightarrow> c]
   \<and> stream (onDecode (Some payload) err c trk s) = None
   \<and> srcObject (onDecode (Some payload) err c trk s) = None
   \<and> releasedStreams (onDecode (Some payload) err c trk s)
       = releasedStreams s @ optList (orElse (srcObject s) (stream s))"
    by (simp add: onDecode_def Let_def optList_def) (simp add: orElse_def split: option.splits)
  with trim_split [of payload] trim_ends [of payload] show ?thesis by blast
qed

text \<open>
  C5. The claim asks that a result tears the session down, the controls included. Here
  a first session ends with a \<^verbatim>\<open>NotAllowedError\<close> in the callback, which leaves its
  handle 1 stored; a second session is started (nothing is pending and no stream is
  held), its stream 2 is attached with handle 2, and its loop delivers the payload
  \<^verbatim>\<open>"  https://site.example  "\<close>. The text is trimmed and recorded, \<^verbatim>\<open>scanning\<close> is
  false and stream 2 is released, but the callback kept the stored handle 1 and
  \<^verbatim>\<open>stopScan\<close> called \<^verbatim>\<open>stop()\<close> on that one: the loop that delivered the result,
  handle 2, is not cancelled. It can invoke the callback again, and a second result
  replaces the first.
\<close>

theorem result_stops_stale_handle:
  "exec disciplined
     [StartScan, StreamAttached 1 1,
      DecodeCallback 1 None (Some (domException ''NotAllowedError'')) None,
      StartScan, StreamAttached 2 2,
      DecodeCallback 2 (Some (js ''  https://site.example  '')) None None]
     initial
   = Some (initial\<lparr> controls := None, scanning := False,
        resultText := js ''https://site.example'', stoppedControls := [1],
        releasedStreams := [1, 2], scheduledRefreshes := 2, openedStreams := [1, 2],
        issuedControls := [1, 2] \<rparr>)
   \<and> exec disciplined
     [StartScan, StreamAttached 1 1,
      DecodeCallback 1 None (Some (domException ''NotAllowedError'')) None,
      StartScan, StreamAttached 2 2,
      DecodeCallback 2 (Some (js ''  https://site.example  '')) None None,
      DecodeCallback 2 (Some (js ''second'')) None None]
     initial
   = Some (initial\<lparr> controls := None, scanning := False,
        resultText := js ''second'', stoppedControls := [1, 2],
        releasedStreams := [1, 2], scheduledRefreshes := 2, openedStreams := [1, 2],
        issuedControls := [1, 2] \<rparr>)"
  by (simp add: run_defs tornDown_def trim_def isWhiteSpace_def)

subsection \<open>toggleTorch\<close>

text \<open>
  C6. \<^verbatim>\<open>toggleTorch\<close> called while \<^verbatim>\<open>hasTorch\<close> is false changes no field. Called while
  it is true, it flips \<^verbatim>\<open>torchOn\<close> when \<^verbatim>\<open>applyConstraints\<close> resolves, and when
  \<^verbatim>\<open>applyConstraints\<close> rejects (there is a stream, hence a track to call it on) it sets
  both \<^verbatim>\<open>torchOn\<close> and \<^verbatim>\<open>hasTorch\<close> to false.
\<close>

theorem toggleTorch_cases:
  "(\<not> hasTorch s \<longrightarrow> toggleTorch trk s = s)
   \<and> (hasTorch s \<longrightarrow>
        toggleTorch (Some (t\<lparr> applyConstraints := Resolves () \<rparr>)) s
          = s\<lparr> torchOn := \<not> torchOn s \<rparr>)
   \<and> (hasTorch s \<and> stream s = Some h \<longrightarrow>
        toggleTorch (Some (t\<lparr> applyConstraints := Rejects \<rparr>)) s
          = s\<lparr> torchOn := False, hasTorch := False \<rparr>)"
  by (simp add: toggleTorch_def split: option.splits)

text \<open>
  The three cases of C6 on concrete states: the initial state (no torch), and a state
  with a stream and a detected torch.
\<close>

theorem toggleTorch_cases_witness:
  "\<not> hasTorch initial
   \<and> toggleTorch (Some torchTrack) initial = initial
   \<and> hasTorch (initial\<lparr> stream := Some 1, hasTorch := True \<rparr>)
   \<and> stream (initial\<lparr> stream := Some 1, hasTorch := True \<rparr>) = Some 1
   \<and> toggleTorch (Some (torchTrack\<lparr> applyConstraints := Resolves () \<rparr>))
        (initial\<lparr> stream := Some 1, hasTorch := True \<rparr>)
       = initial\<lparr> stream := Some 1, hasTorch := True, torchOn := True \<rparr>
   \<and> toggleTorch (Some (torchTrack\<lparr> applyConstraints := Rejects \<rparr>))
        (initial\<lparr> stream := Some 1, hasTorch := True \<rparr>)
       = initial\<lparr> stream := Some 1, hasTorch := False, torchOn := False \<rparr>"
  using toggleTorch_cases [of initial "Some torchTrack" torchTrack 1]
    toggleTorch_cases [of "initial\<lparr> stream := Some 1, hasTorch := True \<rparr>"
      "Some torchTrack" torchTrack 1]
  by (simp add: initial_def)

subsection \<open>stopScan\<close>

text \<open>
  C7, as the code has it. \<^verbatim>\<open>stopScan\<close> is a total function of the state and a second
  consecutive call changes nothing (no further \<^verbatim>\<open>stop()\<close> on a controls handle, no
  further release of tracks). One call stops the stored controls handle, if any, and
  forgets it; stops the tracks of the stream the session holds (the video element's,
  or else the stored one), if any, and forgets it; sets \<^verbatim>\<open>torchOn\<close> and \<^verbatim>\<open>scanning\<close> to
  false. It leaves \<^verbatim>\<open>hasTorch\<close> as it was.
\<close>

theorem stopScan_idempotent_teardown:
  "stopScan (stopScan s) = stopScan s
   \<and> controls (stopScan s) = None
   \<and> stoppedControls (stopScan s) = stoppedControls s @ optList (controls s)
   \<and> stream (stopScan s) = None \<and> srcObject (stopScan s) = None
   \<and> releasedStreams (stopScan s)
       = releasedStreams s @ optList (orElse (srcObject s) (stream s))
   \<and> torchOn (stopScan s) = False
   \<and> hasTorch (stopScan s) = hasTorch s
   \<and> scanning (stopScan s) = False"
  by (simp add: stopScan_twice)

text \<open>
  C7 as stated fails: after a start, an attached stream and one callback that detects a
  torch, \<^verbatim>\<open>stopScan\<close> leaves \<^verbatim>\<open>hasTorch\<close> true, so it does not clear the torch-supported
  flag.
\<close>

theorem stopScan_keeps_hasTorch:
  "map_option hasTorch
     (exec possible
        [StartScan, StreamAttached 1 1,
         DecodeCallback 1 None (Some notFoundException) (Some torchTrack), StopScan]
        initial)
   = Some True"
  by (simp add: run_defs)

subsection \<open>The torch flags\<close>

text \<open>
  C8. The claim asks that \<^verbatim>\<open>torchOn\<close> implies \<^verbatim>\<open>hasTorch\<close> in every reachable state.
  Here a session scans on a stream with a torch and the torch is switched on. Then
  \<^verbatim>\<open>setError\<close> runs (after a failed refresh in the first sequence, after a classified
  error in the second): it releases the stream and leaves \<^verbatim>\<open>torchOn\<close> and the decode
  loop alone. The loop's next invocation runs \<^verbatim>\<open>detectTorchSupport\<close> without a stream
  and sets \<^verbatim>\<open>hasTorch\<close> to false, while \<^verbatim>\<open>torchOn\<close> is still true.
\<close>

theorem torchOn_without_hasTorch:
  "exec possible
     [StartScan, StreamAttached 1 1,
      DecodeCallback 1 None (Some notFoundException) (Some torchTrack),
      ToggleTorch (Some torchTrack),
      RefreshDevices Rejects None,
      DecodeCallback 1 None (Some notFoundException) (Some torchTrack)]
     initial
   = Some (initial\<lparr> controls := Some 1, scanning := False, errorMsg := Some msgDevices,
        hasTorch := False, torchOn := True, releasedStreams := [1],
        scheduledRefreshes := 1, consoleErrors := 1, openedStreams := [1],
        issuedControls := [1] \<rparr>)
   \<and> exec possible
     [StartScan, StreamAttached 1 1,
      DecodeCallback 1 None (Some notFoundException) (Some torchTrack),
      ToggleTorch (Some torchTrack),
      DecodeCallback 1 None (Some (domException ''SecurityError'')) (Some torchTrack),
      DecodeCallback 1 None (Some notFoundException) (Some torchTrack)]
     initial
   = Some (initial\<lparr> controls := Some 1, scanning := False, errorMsg := Some msgSecurity,
        hasTorch := False, torchOn := True, releasedStreams := [1],
        scheduledRefreshes := 1, openedStreams := [1], issuedControls := [1] \<rparr>)"
  by (simp add: run_defs)

subsection \<open>isUrl\<close>

text \<open>
  C9. \<^verbatim>\<open>isUrl\<close> is a function of its argument alone (and of the browser's \<^verbatim>\<open>URL\<close>
  constructor); it reads and writes no field of the component. It returns true exactly
  when the constructor accepts the string and the protocol of the parsed URL is
  \<^verbatim>\<open>http:\<close> or \<^verbatim>\<open>https:\<close>. With a constructor that parses \<^verbatim>\<open>https://example.com\<close> to the
  protocol \<^verbatim>\<open>https:\<close> and \<^verbatim>\<open>ftp://x\<close> to the protocol \<^verbatim>\<open>ftp:\<close> and that rejects
  \<^verbatim>\<open>not a url\<close>, it returns true on the first and false on the other two.
\<close>

theorem isUrl_http_https:
  "(isUrl newURL v \<longleftrightarrow>
      (\<exists>u. newURL v = Some u \<and> (protocol u = js ''http:'' \<or> protocol u = js ''https:'')))
   \<and> (newURL (js ''https://example.com'') = Some u1 \<and> protocol u1 = js ''https:''
        \<longrightarrow> isUrl newURL (js ''https://example.com''))
   \<and> (newURL (js ''ftp://x'') = Some u2 \<and> protocol u2 = js ''ftp:''
        \<longrightarrow> \<not> isUrl newURL (js ''ftp://x''))
   \<and> (newURL (js ''not a url'') = None \<longrightarrow> \<not> isUrl newURL (js ''not a url''))"
  by (auto simp add: isUrl_def js_def split: option.splits)

text \<open>C9 with the stand-in constructor, which behaves on the three examples as required.\<close>

theorem isUrl_http_https_witness:
  "exampleURL (js ''https://example.com'') = Some \<lparr> protocol = js ''https:'' \<rparr>
   \<and> exampleURL (js ''ftp://x'') = Some \<lparr> protocol = js ''ftp:'' \<rparr>
   \<and> exampleURL (js ''not a url'') = None
   \<and> isUrl exampleURL (js ''https://example.com'')
   \<and> \<not> isUrl exampleURL (js ''ftp://x'')
   \<and> \<not> isUrl exampleURL (js ''not a url'')"
  using isUrl_http_https
    [of exampleURL "js ''https://example.com''" "\<lparr> protocol = js ''https:'' \<rparr>"
      "\<lparr> protocol = js ''ftp:'' \<rparr>"]
  by (simp add: exampleURL_def js_def)

subsection \<open>What stopScan does not touch\<close>



end
